theory Spec2Isabelle
  imports Main
begin

section \<open>Entities: players and rooms\<close>

text \<open>
  The client mirrors the server's lobby: a room has a name and a keyed collection of
  players; a player has a client id, a display name, a colour and a ready flag.
  Keys, names and colours are strings (as in the payloads of the spec, section 6).
\<close>

record player =
  client :: string
  pname :: string
  color :: string
  ready :: bool

record room =
  name :: string
  players :: "player list"

subsection \<open>Collection\<close>

text \<open>
  Modelled from the spec: the class \<open>Collection\<close> (spec 3 and 4.1), whose source file is
  not among the given sources; only its caller \<open>RoomRepository.js\<close> is.  A collection is
  the ordered sequence of its items together with the accessor that yields an item's key
  (\<open>new Collection([], 'name')\<close> is the empty list read with the accessor \<open>name\<close>).

  \<^item> \<open>getById(key)\<close> returns the item or the absent marker (here \<open>None\<close>);
  \<^item> \<open>add(item)\<close> inserts at the end and returns true; it returns false without mutating
    when an item with the same key already exists;
  \<^item> \<open>remove(item)\<close> removes the first element with a matching key; it returns false if
    there is none.
\<close>

definition Collection_exists :: "('a \<Rightarrow> 'k) \<Rightarrow> 'a list \<Rightarrow> 'k \<Rightarrow> bool" where
  "Collection_exists key items k = list_ex (\<lambda>x. key x = k) items"

definition Collection_getById :: "('a \<Rightarrow> 'k) \<Rightarrow> 'a list \<Rightarrow> 'k \<Rightarrow> 'a option" where
  "Collection_getById key items k = find (\<lambda>x. key x = k) items"

definition Collection_add :: "('a \<Rightarrow> 'k) \<Rightarrow> 'a list \<Rightarrow> 'a \<Rightarrow> bool \<times> 'a list" where
  "Collection_add key items item =
     (if Collection_exists key items (key item) then (False, items)
      else (True, items @ [item]))"

fun remove_first :: "('a \<Rightarrow> bool) \<Rightarrow> 'a list \<Rightarrow> 'a list" where
  "remove_first P [] = []"
| "remove_first P (x # xs) = (if P x then xs else x # remove_first P xs)"

definition Collection_remove :: "('a \<Rightarrow> 'k) \<Rightarrow> 'a list \<Rightarrow> 'a \<Rightarrow> bool \<times> 'a list" where
  "Collection_remove key items item =
     (if Collection_exists key items (key item)
      then (True, remove_first (\<lambda>x. key x = key item) items)
      else (False, items))"

text \<open>
  JavaScript objects are references: a method called on the object that \<open>getById\<close>
  returned changes the object inside the collection.  With explicit state passing this is
  an update of the first item carrying that key, which is the item \<open>getById\<close> returns.
\<close>

fun mutate_first :: "('a \<Rightarrow> bool) \<Rightarrow> ('a \<Rightarrow> 'a) \<Rightarrow> 'a list \<Rightarrow> 'a list" where
  "mutate_first P f [] = []"
| "mutate_first P f (x # xs) = (if P x then f x # xs else x # mutate_first P f xs)"

definition mutate_item :: "('a \<Rightarrow> 'k) \<Rightarrow> 'k \<Rightarrow> ('a \<Rightarrow> 'a) \<Rightarrow> 'a list \<Rightarrow> 'a list" where
  "mutate_item key k f items = mutate_first (\<lambda>x. key x = k) f items"

subsection \<open>Player and Room\<close>

text \<open>
  Modelled from the spec: the classes \<open>Player\<close> and \<open>Room\<close> (spec 3 and 4.2), whose source
  files are not among the given sources.  \<open>new Player(client, name, color)\<close> holds the three
  values and a ready flag that starts false; \<open>setColor\<close> overwrites the colour;
  \<open>toggleReady(ready)\<close> sets the flag to the value supplied.  \<open>new Room(name)\<close> has an empty
  player collection keyed by \<open>client\<close>; \<open>addPlayer\<close> and \<open>removePlayer\<close> delegate to it.
\<close>

definition new_Player :: "string \<Rightarrow> string \<Rightarrow> string \<Rightarrow> player" where
  "new_Player c n col = \<lparr>client = c, pname = n, color = col, ready = False\<rparr>"

definition Player_setColor :: "string \<Rightarrow> player \<Rightarrow> player" where
  "Player_setColor col p = p\<lparr>color := col\<rparr>"

definition Player_toggleReady :: "bool \<Rightarrow> player \<Rightarrow> player" where
  "Player_toggleReady b p = p\<lparr>ready := b\<rparr>"

definition new_Room :: "string \<Rightarrow> room" where
  "new_Room n = \<lparr>name = n, players = []\<rparr>"

definition Room_addPlayer :: "room \<Rightarrow> player \<Rightarrow> bool \<times> room" where
  "Room_addPlayer r p =
     (case Collection_add client (players r) p of (ok, ps) \<Rightarrow> (ok, r\<lparr>players := ps\<rparr>))"

definition Room_removePlayer :: "room \<Rightarrow> player \<Rightarrow> bool \<times> room" where
  "Room_removePlayer r p =
     (case Collection_remove client (players r) p of (ok, ps) \<Rightarrow> (ok, r\<lparr>players := ps\<rparr>))"

section \<open>RoomRepository\<close>

subsection \<open>State and the two event channels\<close>

text \<open>
  The repository's own fields are \<open>synced\<close> and \<open>rooms\<close>.  Its two effects are recorded
  as logs in the state: \<open>sent\<close> holds the messages handed to the transport by
  \<open>this.client.io.emit\<close>, \<open>emitted\<close> the notifications published by \<open>this.emit\<close>, both in
  order.  A notification carries the event name and the payload object; the room and the
  player in a payload are recorded as they are when the notification is emitted.

  An outbound message is the event name, the payload object (its fields in the order of
  the object literal) when there is one, and the callback argument (\<open>None\<close> when the caller
  passed none).  The values passed through and the callbacks are opaque: \<open>'v\<close> and \<open>'cb\<close>.
\<close>

datatype payload = NoData | RoomData room | RoomPlayerData room player

type_synonym notification = "string \<times> payload"

record ('v, 'cb) message =
  m_event :: string
  m_payload :: "(string \<times> 'v) list option"
  m_callback :: "'cb option"

record ('v, 'cb) repository =
  synced :: bool
  rooms :: "room list"
  sent :: "('v, 'cb) message list"
  emitted :: "notification list"

definition RoomRepository :: "('v, 'cb) repository" where
  "RoomRepository = \<lparr>synced = False, rooms = [], sent = [], emitted = []\<rparr>"

definition emit :: "string \<Rightarrow> payload \<Rightarrow> ('v, 'cb) repository \<Rightarrow> ('v, 'cb) repository" where
  "emit ev d s = s\<lparr>emitted := emitted s @ [(ev, d)]\<rparr>"

definition io_emit ::
  "string \<Rightarrow> (string \<times> 'v) list option \<Rightarrow> 'cb option \<Rightarrow> ('v, 'cb) repository \<Rightarrow> ('v, 'cb) repository" where
  "io_emit ev p cb s = s\<lparr>sent := sent s @ [\<lparr>m_event = ev, m_payload = p, m_callback = cb\<rparr>]\<rparr>"

definition get :: "('v, 'cb) repository \<Rightarrow> string \<Rightarrow> room option" where
  "get s n = Collection_getById name (rooms s) n"

subsection \<open>Outbound requests\<close>

definition create :: "'v \<Rightarrow> 'cb option \<Rightarrow> ('v, 'cb) repository \<Rightarrow> ('v, 'cb) repository" where
  "create n callback s = io_emit ''room:create'' (Some [(''name'', n)]) callback s"

definition join :: "'v \<Rightarrow> 'cb option \<Rightarrow> ('v, 'cb) repository \<Rightarrow> ('v, 'cb) repository" where
  "join r callback s = io_emit ''room:join'' (Some [(''room'', r)]) callback s"

definition addPlayer :: "'v \<Rightarrow> 'cb option \<Rightarrow> ('v, 'cb) repository \<Rightarrow> ('v, 'cb) repository" where
  "addPlayer n callback s = io_emit ''room:player:add'' (Some [(''name'', n)]) callback s"

definition leave :: "'cb option \<Rightarrow> ('v, 'cb) repository \<Rightarrow> ('v, 'cb) repository" where
  "leave callback s = io_emit ''room:leave'' None callback s"

definition setColor ::
  "'v \<Rightarrow> 'v \<Rightarrow> 'v \<Rightarrow> 'cb option \<Rightarrow> ('v, 'cb) repository \<Rightarrow> ('v, 'cb) repository" where
  "setColor r p col callback s =
     io_emit ''room:color'' (Some [(''room'', r), (''player'', p), (''color'', col)]) callback s"

definition setReady :: "'v \<Rightarrow> 'v \<Rightarrow> 'cb option \<Rightarrow> ('v, 'cb) repository \<Rightarrow> ('v, 'cb) repository" where
  "setReady r p callback s =
     io_emit ''room:ready'' (Some [(''room'', r), (''player'', p)]) callback s"

subsection \<open>Inbound events\<close>

text \<open>The payloads of the transport's events (spec 6).\<close>

record player_data =
  d_client :: string
  d_pname :: string
  d_color :: string

record new_room_data =
  nr_name :: string
  nr_players :: "player_data list"

record join_data =
  j_room :: string
  j_player :: player_data

record leave_data =
  l_room :: string
  l_player :: string

record color_data =
  c_room :: string
  c_player :: string
  c_color :: string

record ready_data =
  r_room :: string
  r_player :: string
  r_ready :: bool

text \<open>
  \<open>player_of pd\<close> is the expression \<open>new Player(pd.client, pd.name, pd.color)\<close>, which
  \<open>onNewRoom\<close> evaluates for every entry of the snapshot and \<open>onJoinRoom\<close> for the joining
  player.
\<close>

definition player_of :: "player_data \<Rightarrow> player" where
  "player_of pd = new_Player (d_client pd) (d_pname pd) (d_color pd)"

definition setSynced :: "('v, 'cb) repository \<Rightarrow> ('v, 'cb) repository" where
  "setSynced s = (if \<not> synced s then emit ''synced'' NoData (s\<lparr>synced := True\<rparr>) else s)"

text \<open>
  The loop of \<open>onNewRoom\<close>, \<open>for (var i = data.players.length - 1; i >= 0; i--)\<close>:
  \<open>addPlayers n ps r\<close> is the room after the iterations \<open>i = n - 1, ..., 0\<close>.
\<close>

fun addPlayers :: "nat \<Rightarrow> player_data list \<Rightarrow> room \<Rightarrow> room" where
  "addPlayers 0 ps r = r"
| "addPlayers (Suc i) ps r = addPlayers i ps (snd (Room_addPlayer r (player_of (ps ! i))))"

definition buildRoom :: "new_room_data \<Rightarrow> room" where
  "buildRoom d = addPlayers (length (nr_players d)) (nr_players d) (new_Room (nr_name d))"

definition onNewRoom :: "new_room_data \<Rightarrow> ('v, 'cb) repository \<Rightarrow> ('v, 'cb) repository" where
  "onNewRoom d s =
     (let r = buildRoom d in
      case Collection_add name (rooms s) r of
        (ok, rs) \<Rightarrow>
          setSynced (if ok then emit ''room:new'' (RoomData r) (s\<lparr>rooms := rs\<rparr>) else s))"

definition onCloseRoom :: "string \<Rightarrow> ('v, 'cb) repository \<Rightarrow> ('v, 'cb) repository" where
  "onCloseRoom d_room s =
     (case get s d_room of
        None \<Rightarrow> s
      | Some r \<Rightarrow>
          (case Collection_remove name (rooms s) r of
             (ok, rs) \<Rightarrow> if ok then emit ''room:close'' (RoomData r) (s\<lparr>rooms := rs\<rparr>) else s))"

definition onJoinRoom :: "join_data \<Rightarrow> ('v, 'cb) repository \<Rightarrow> ('v, 'cb) repository" where
  "onJoinRoom d s =
     (let p = player_of (j_player d) in
      case Collection_getById name (rooms s) (j_room d) of
        None \<Rightarrow> s
      | Some r \<Rightarrow>
          (case Room_addPlayer r p of
             (ok, r') \<Rightarrow>
               if ok then
                 emit (''room:join:'' @ name r') (RoomPlayerData r' p)
                   (emit ''room:join'' (RoomPlayerData r' p)
                      (s\<lparr>rooms := mutate_item name (j_room d) (\<lambda>_. r') (rooms s)\<rparr>))
               else s))"

definition onLeaveRoom :: "leave_data \<Rightarrow> ('v, 'cb) repository \<Rightarrow> ('v, 'cb) repository" where
  "onLeaveRoom d s =
     (case Collection_getById name (rooms s) (l_room d) of
        None \<Rightarrow> s
      | Some r \<Rightarrow>
          (case Collection_getById client (players r) (l_player d) of
             None \<Rightarrow> s
           | Some p \<Rightarrow>
               (case Room_removePlayer r p of
                  (ok, r') \<Rightarrow>
                    if ok then
                      emit (''room:leave:'' @ name r') (RoomPlayerData r' p)
                        (emit ''room:leave'' (RoomPlayerData r' p)
                           (s\<lparr>rooms := mutate_item name (l_room d) (\<lambda>_. r') (rooms s)\<rparr>))
                    else s)))"

definition onPlayerColor :: "color_data \<Rightarrow> ('v, 'cb) repository \<Rightarrow> ('v, 'cb) repository" where
  "onPlayerColor d s =
     (case Collection_getById name (rooms s) (c_room d) of
        None \<Rightarrow> s
      | Some r \<Rightarrow>
          (case Collection_getById client (players r) (c_player d) of
             None \<Rightarrow> s
           | Some p \<Rightarrow>
               (let p' = Player_setColor (c_color d) p;
                    r' = r\<lparr>players := mutate_item client (c_player d) (\<lambda>_. p') (players r)\<rparr>
                in emit (''room:player:color:'' @ name r') (RoomPlayerData r' p')
                     (s\<lparr>rooms := mutate_item name (c_room d) (\<lambda>_. r') (rooms s)\<rparr>))))"

definition onPlayerReady :: "ready_data \<Rightarrow> ('v, 'cb) repository \<Rightarrow> ('v, 'cb) repository" where
  "onPlayerReady d s =
     (case Collection_getById name (rooms s) (r_room d) of
        None \<Rightarrow> s
      | Some r \<Rightarrow>
          (case Collection_getById client (players r) (r_player d) of
             None \<Rightarrow> s
           | Some p \<Rightarrow>
               (let p' = Player_toggleReady (r_ready d) p;
                    r' = r\<lparr>players := mutate_item client (r_player d) (\<lambda>_. p') (players r)\<rparr>
                in emit (''room:player:ready:'' @ name r') (RoomPlayerData r' p')
                     (s\<lparr>rooms := mutate_item name (r_room d) (\<lambda>_. r') (rooms s)\<rparr>))))"

definition onWarmupRoom :: "string \<Rightarrow> ('v, 'cb) repository \<Rightarrow> ('v, 'cb) repository" where
  "onWarmupRoom d_room s =
     (case Collection_getById name (rooms s) d_room of
        None \<Rightarrow> s
      | Some r \<Rightarrow> emit (''room:start:'' @ name r) (RoomData r) (emit ''room:start'' (RoomData r) s))"

subsection \<open>refresh\<close>

text \<open>
  \<open>refresh\<close> assigns the two fields and then evaluates
  \<open>this.client.io.emit('room:join', {room: room}, callback)\<close>, where \<open>room\<close> and \<open>callback\<close>
  are neither parameters nor locals: they are looked up in the global scope, and reading
  an identifier that is not declared there throws a ReferenceError before anything is
  sent.  The global scope is a parameter: \<open>g_room\<close> and \<open>g_callback\<close> are \<open>None\<close> when the
  identifier is not declared.  The fields assigned before the throw stay assigned.
\<close>

datatype js_error = ReferenceError string

record ('v, 'cb) globals =
  g_room :: "'v option"
  g_callback :: "'cb option option"

definition refresh ::
  "('v, 'cb) globals \<Rightarrow> ('v, 'cb) repository \<Rightarrow> js_error option \<times> ('v, 'cb) repository" where
  "refresh g s =
     (let s1 = s\<lparr>synced := False, rooms := []\<rparr> in
      case g_room g of
        None \<Rightarrow> (Some (ReferenceError ''room''), s1)
      | Some r \<Rightarrow>
          (case g_callback g of
             None \<Rightarrow> (Some (ReferenceError ''callback''), s1)
           | Some cb \<Rightarrow> (None, io_emit ''room:join'' (Some [(''room'', r)]) cb s1)))"

subsection \<open>The subscriptions made by the constructor\<close>

text \<open>
  The constructor subscribes one handler to each transport event; \<open>deliver\<close> is the
  transport delivering one event, \<open>run\<close> a sequence of deliveries, one at a time.
\<close>

datatype inbound =
    RoomNew new_room_data
  | RoomClose string
  | RoomJoin join_data
  | RoomLeave leave_data
  | RoomStart string
  | RoomPlayerReady ready_data
  | RoomPlayerColor color_data

fun deliver :: "inbound \<Rightarrow> ('v, 'cb) repository \<Rightarrow> ('v, 'cb) repository" where
  "deliver (RoomNew d) s = onNewRoom d s"
| "deliver (RoomClose n) s = onCloseRoom n s"
| "deliver (RoomJoin d) s = onJoinRoom d s"
| "deliver (RoomLeave d) s = onLeaveRoom d s"
| "deliver (RoomStart n) s = onWarmupRoom n s"
| "deliver (RoomPlayerReady d) s = onPlayerReady d s"
| "deliver (RoomPlayerColor d) s = onPlayerColor d s"

fun run :: "inbound list \<Rightarrow> ('v, 'cb) repository \<Rightarrow> ('v, 'cb) repository" where
  "run [] s = s"
| "run (e # es) s = run es (deliver e s)"

section \<open>Observations\<close>

text \<open>
  What the statements below observe: how often an event name occurs in the log of
  published notifications, whether a transport event is a \<open>room:new\<close>, and the invariant of
  the keyed collections (no two rooms share a name, no two players of a room share a
  client id).
\<close>

definition count_event :: "string \<Rightarrow> ('v, 'cb) repository \<Rightarrow> nat" where
  "count_event ev s = length (filter (\<lambda>n. fst n = ev) (emitted s))"

fun is_RoomNew :: "inbound \<Rightarrow> bool" where
  "is_RoomNew (RoomNew d) = True"
| "is_RoomNew e = False"

text \<open>
  \<open>player_in s rn c\<close> is the lookup that \<open>onLeaveRoom\<close>, \<open>onPlayerColor\<close> and \<open>onPlayerReady\<close>
  start with: \<open>room ? room.players.getById(data.player) : null\<close> for the room
  \<open>this.rooms.getById(data.room)\<close>.
\<close>

definition player_in :: "('v, 'cb) repository \<Rightarrow> string \<Rightarrow> string \<Rightarrow> player option" where
  "player_in s rn c =
     (case Collection_getById name (rooms s) rn of
        None \<Rightarrow> None
      | Some r \<Rightarrow> Collection_getById client (players r) c)"

definition unique_keys :: "('v, 'cb) repository \<Rightarrow> bool" where
  "unique_keys s =
     (distinct (map name (rooms s)) \<and> list_all (\<lambda>r. distinct (map client (players r))) (rooms s))"

text \<open>
  \<open>drop_repeated key xs\<close> is not part of the program: it is the list \<open>xs\<close> without every
  item whose key occurs again later in \<open>xs\<close>.  It describes which entries of a snapshot a
  collection keeps when they are added last to first.
\<close>

fun drop_repeated :: "('a \<Rightarrow> 'k) \<Rightarrow> 'a list \<Rightarrow> 'a list" where
  "drop_repeated key [] = []"
| "drop_repeated key (x # xs) =
     (if key x \<in> set (map key xs) then drop_repeated key xs else x # drop_repeated key xs)"

section \<open>Example data\<close>

text \<open>
  The scenario of the spec (section 8): Alice, client \<open>c1\<close>, is in \<open>lobby1\<close>; a second
  player and a second room serve the examples with two rooms.  Values sent to the
  transport are strings here, and there is one callback.
\<close>

definition alice :: player_data where
  "alice = \<lparr>d_client = ''c1'', d_pname = ''Alice'', d_color = ''red''\<rparr>"

definition bob :: player_data where
  "bob = \<lparr>d_client = ''c2'', d_pname = ''Bob'', d_color = ''blue''\<rparr>"

definition fresh :: "(string, unit) repository" where
  "fresh = RoomRepository"

definition lobby1_snapshot :: new_room_data where
  "lobby1_snapshot = \<lparr>nr_name = ''lobby1'', nr_players = [alice, bob]\<rparr>"

definition lobby1_again :: new_room_data where
  "lobby1_again = \<lparr>nr_name = ''lobby1'', nr_players = []\<rparr>"

definition lobby :: "(string, unit) repository" where
  "lobby = onNewRoom \<lparr>nr_name = ''lobby1'', nr_players = [alice]\<rparr> fresh"

definition two_lobbies :: "(string, unit) repository" where
  "two_lobbies = onNewRoom \<lparr>nr_name = ''lobby2'', nr_players = [bob]\<rparr> lobby"

definition alice_player :: player where
  "alice_player = \<lparr>client = ''c1'', pname = ''Alice'', color = ''red'', ready = False\<rparr>"

definition bob_player :: player where
  "bob_player = \<lparr>client = ''c2'', pname = ''Bob'', color = ''blue'', ready = False\<rparr>"

definition lobby1_room :: room where
  "lobby1_room = \<lparr>name = ''lobby1'', players = [alice_player]\<rparr>"

definition lobby2_room :: room where
  "lobby2_room = \<lparr>name = ''lobby2'', players = [bob_player]\<rparr>"

definition bob_joins :: join_data where
  "bob_joins = \<lparr>j_room = ''lobby1'', j_player = bob\<rparr>"

definition bob_joins_again :: join_data where
  "bob_joins_again = \<lparr>j_room = ''lobby1'', j_player = bob\<lparr>d_pname := ''Robert''\<rparr>\<rparr>"

definition leave_ghost :: leave_data where
  "leave_ghost = \<lparr>l_room = ''ghost'', l_player = ''c1''\<rparr>"

definition leave_stranger :: leave_data where
  "leave_stranger = \<lparr>l_room = ''lobby1'', l_player = ''c9''\<rparr>"

definition leave_alice :: leave_data where
  "leave_alice = \<lparr>l_room = ''lobby1'', l_player = ''c1''\<rparr>"

definition ready_on :: ready_data where
  "ready_on = \<lparr>r_room = ''lobby1'', r_player = ''c1'', r_ready = True\<rparr>"

definition ready_wrong_room :: ready_data where
  "ready_wrong_room = \<lparr>r_room = ''lobby2'', r_player = ''c1'', r_ready = True\<rparr>"

definition color_ghost :: color_data where
  "color_ghost = \<lparr>c_room = ''ghost'', c_player = ''c1'', c_color = ''green''\<rparr>"

definition color_wrong_room :: color_data where
  "color_wrong_room = \<lparr>c_room = ''lobby2'', c_player = ''c1'', c_color = ''green''\<rparr>"

definition color_alice :: color_data where
  "color_alice = \<lparr>c_room = ''lobby1'', c_player = ''c1'', c_color = ''green''\<rparr>"

definition alicia :: player_data where
  "alicia = \<lparr>d_client = ''c1'', d_pname = ''Alicia'', d_color = ''pink''\<rparr>"

definition alicia_player :: player where
  "alicia_player = \<lparr>client = ''c1'', pname = ''Alicia'', color = ''pink'', ready = False\<rparr>"

definition dup_snapshot :: new_room_data where
  "dup_snapshot = \<lparr>nr_name = ''lobby1'', nr_players = [alice, bob, alicia]\<rparr>"

definition no_globals :: "(string, unit) globals" where
  "no_globals = \<lparr>g_room = None, g_callback = None\<rparr>"

section \<open>Lemmas about the collections and the two logs\<close>

lemma getById_Some: "Collection_getById key xs k = Some x \<Longrightarrow> key x = k \<and> x \<in> set xs"
  by (auto simp: Collection_getById_def find_Some_iff)

lemma exists_getById: "Collection_exists key xs k = (Collection_getById key xs k \<noteq> None)"
  by (auto simp: Collection_exists_def Collection_getById_def list_ex_iff find_None_iff)

lemma exists_set: "Collection_exists key xs k = (k \<in> key ` set xs)"
  by (auto simp: Collection_exists_def list_ex_iff)

lemma getById_mutate:
  "Collection_getById key xs k = Some x \<Longrightarrow> key y = k \<Longrightarrow>
   Collection_getById key (mutate_item key k (\<lambda>_. y) xs) k = Some y"
  by (induction xs) (auto simp: Collection_getById_def mutate_item_def)

lemma map_key_mutate:
  "key y = k \<Longrightarrow> map key (mutate_item key k (\<lambda>_. y) xs) = map key xs"
  by (induction xs) (auto simp: mutate_item_def)

lemma getById_mutate_other:
  "key y = k \<Longrightarrow> k' \<noteq> k \<Longrightarrow>
   Collection_getById key (mutate_item key k (\<lambda>_. y) xs) k' = Collection_getById key xs k'"
  by (induction xs) (auto simp: Collection_getById_def mutate_item_def)

lemma count_event_emit:
  "count_event ev (emit ev' d s) = count_event ev s + (if ev' = ev then 1 else 0)"
  by (simp add: emit_def count_event_def)

lemma count_event_rooms [simp]: "count_event ev (s\<lparr>rooms := rs\<rparr>) = count_event ev s"
  by (simp add: count_event_def)

lemma synced_emit [simp]: "synced (emit ev d s) = synced s"
  by (simp add: emit_def)

subsection \<open>The synced flag along a run\<close>

lemma setSynced_synced: "synced (setSynced s)"
  by (simp add: setSynced_def emit_def)

lemma setSynced_count:
  "count_event ''synced'' (setSynced s) = count_event ''synced'' s + (if synced s then 0 else 1)"
  by (simp add: setSynced_def emit_def count_event_def)

lemma onNewRoom_synced: "synced (onNewRoom d s)"
  by (simp add: onNewRoom_def Let_def setSynced_synced split: prod.splits)

lemma onNewRoom_count:
  "count_event ''synced'' (onNewRoom d s) = count_event ''synced'' s + (if synced s then 0 else 1)"
  by (simp add: onNewRoom_def Let_def setSynced_count count_event_emit split: prod.splits)

lemma deliver_other_synced:
  "\<not> is_RoomNew e \<Longrightarrow> synced (deliver e s) = synced s"
  by (cases e)
     (auto simp: onCloseRoom_def onJoinRoom_def onLeaveRoom_def onWarmupRoom_def
        onPlayerReady_def onPlayerColor_def get_def emit_def Let_def
        split: option.splits prod.splits)

lemma deliver_other_count:
  "\<not> is_RoomNew e \<Longrightarrow> count_event ''synced'' (deliver e s) = count_event ''synced'' s"
  by (cases e)
     (auto simp: onCloseRoom_def onJoinRoom_def onLeaveRoom_def onWarmupRoom_def
        onPlayerReady_def onPlayerColor_def get_def emit_def Let_def count_event_def
        split: option.splits prod.splits)

lemma deliver_synced: "synced (deliver e s) = (synced s \<or> is_RoomNew e)"
  by (cases "is_RoomNew e") (auto simp: deliver_other_synced onNewRoom_synced elim: is_RoomNew.elims)

lemma deliver_count:
  "count_event ''synced'' (deliver e s) =
     count_event ''synced'' s + (if \<not> synced s \<and> is_RoomNew e then 1 else 0)"
  by (cases "is_RoomNew e") (auto simp: deliver_other_count onNewRoom_count elim: is_RoomNew.elims)

lemma run_synced: "synced (run es s) = (synced s \<or> list_ex is_RoomNew es)"
  by (induction es arbitrary: s) (auto simp: deliver_synced)

lemma run_count:
  "count_event ''synced'' (run es s) =
     count_event ''synced'' s + (if \<not> synced s \<and> list_ex is_RoomNew es then 1 else 0)"
  by (induction es arbitrary: s) (auto simp: deliver_synced deliver_count)

subsection \<open>Keys\<close>

lemma count_key_distinct:
  "distinct (map key xs) \<Longrightarrow>
   length (filter (\<lambda>x. key x = k) xs) = (if Collection_exists key xs k then 1 else 0)"
  by (induction xs) (auto simp: exists_set)

lemma getById_remove_first:
  "distinct (map key xs) \<Longrightarrow>
   Collection_getById key (remove_first (\<lambda>x. key x = k) xs) k = None"
  by (induction xs) (auto simp: Collection_getById_def find_None_iff image_iff)

lemma client_player_of [simp]: "client (player_of pd) = d_client pd"
  by (simp add: player_of_def new_Player_def)

lemma player_in_Some:
  "(player_in s rn c = Some p) =
   (\<exists>r. Collection_getById name (rooms s) rn = Some r \<and>
        Collection_getById client (players r) c = Some p)"
  by (simp add: player_in_def split: option.splits)

subsection \<open>Building a room from a snapshot\<close>

lemma name_Room_addPlayer [simp]: "name (snd (Room_addPlayer r p)) = name r"
  by (simp add: Room_addPlayer_def split: prod.splits)

lemma players_Room_addPlayer:
  "players (snd (Room_addPlayer r p)) = snd (Collection_add client (players r) p)"
  by (simp add: Room_addPlayer_def split: prod.splits)

lemma name_addPlayers [simp]: "name (addPlayers n ps r) = name r"
  by (induction n arbitrary: r) auto

lemma name_buildRoom [simp]: "name (buildRoom d) = nr_name d"
  by (simp add: buildRoom_def new_Room_def)

text \<open>The loop counting the index down is a left fold over the reversed payload.\<close>

lemma addPlayers_foldl:
  "n \<le> length ps \<Longrightarrow>
   addPlayers n ps r =
     foldl (\<lambda>r p. snd (Room_addPlayer r p)) r (rev (map player_of (take n ps)))"
proof (induction n arbitrary: r)
  case 0
  then show ?case by simp
next
  case (Suc n)
  then have "take (Suc n) ps = take n ps @ [ps ! n]"
    by (simp add: take_Suc_conv_app_nth)
  with Suc show ?case by simp
qed

lemma players_foldl_addPlayer:
  "players (foldl (\<lambda>r p. snd (Room_addPlayer r p)) r xs) =
   foldl (\<lambda>ps p. snd (Collection_add client ps p)) (players r) xs"
  by (induction xs arbitrary: r) (auto simp: players_Room_addPlayer)

text \<open>
  Adding the items of a list last to first keeps, of the items sharing a key, the one
  that comes last in the list.
\<close>

lemma keys_drop_repeated: "set (map key (drop_repeated key xs)) = set (map key xs)"
  by (induction xs) auto

lemma drop_repeated_distinct: "distinct (map key xs) \<Longrightarrow> drop_repeated key xs = xs"
  by (induction xs) auto

lemma drop_repeated_map:
  "(\<And>x. key' (f x) = key x) \<Longrightarrow>
   drop_repeated key' (map f xs) = map f (drop_repeated key xs)"
  by (induction xs) (auto simp: image_iff)

lemma foldl_add_rev:
  "foldl (\<lambda>ps p. snd (Collection_add key ps p)) [] (rev xs) = rev (drop_repeated key xs)"
proof (induction xs)
  case Nil
  then show ?case by simp
next
  case (Cons x xs)
  have "Collection_exists key (rev (drop_repeated key xs)) (key x) = (key x \<in> set (map key xs))"
    using keys_drop_repeated [of key xs] by (simp add: exists_set)
  with Cons show ?case
    by (simp add: Collection_add_def)
qed

lemma players_buildRoom:
  "players (buildRoom d) = rev (map player_of (drop_repeated d_client (nr_players d)))"
proof -
  have "players (buildRoom d) =
       foldl (\<lambda>ps p. snd (Collection_add client ps p)) [] (rev (map player_of (nr_players d)))"
    by (simp add: buildRoom_def addPlayers_foldl players_foldl_addPlayer new_Room_def)
  also have "\<dots> = rev (drop_repeated client (map player_of (nr_players d)))"
    by (rule foldl_add_rev)
  also have "drop_repeated client (map player_of (nr_players d)) =
      map player_of (drop_repeated d_client (nr_players d))"
    by (rule drop_repeated_map) simp
  finally show ?thesis by (simp add: rev_map)
qed

subsection \<open>onNewRoom\<close>

lemma onNewRoom_rooms:
  "rooms (onNewRoom d s) =
     (if Collection_exists name (rooms s) (nr_name d) then rooms s else rooms s @ [buildRoom d])"
  by (simp add: onNewRoom_def Collection_add_def Let_def setSynced_def emit_def)

lemma onNewRoom_exists: "Collection_exists name (rooms (onNewRoom d s)) (nr_name d)"
  by (simp add: onNewRoom_rooms) (simp add: exists_set)

lemma onNewRoom_noop:
  "Collection_exists name (rooms s) (nr_name d) \<Longrightarrow> synced s \<Longrightarrow> onNewRoom d s = s"
  by (simp add: onNewRoom_def Collection_add_def Let_def setSynced_def)

lemma onNewRoom_count_new:
  "count_event ''room:new'' (onNewRoom d s) =
     count_event ''room:new'' s + (if Collection_exists name (rooms s) (nr_name d) then 0 else 1)"
  by (simp add: onNewRoom_def Collection_add_def Let_def setSynced_def emit_def count_event_def)

lemma onNewRoom_distinct:
  "distinct (map name (rooms s)) \<Longrightarrow> distinct (map name (rooms (onNewRoom d s)))"
  by (simp add: onNewRoom_rooms) (simp add: exists_set)

subsection \<open>onJoinRoom and onLeaveRoom\<close>

lemma onJoinRoom_eq:
  assumes "Collection_getById name (rooms s) (j_room d) = Some r"
  shows "onJoinRoom d s =
     (if Collection_exists client (players r) (d_client (j_player d)) then s
      else s\<lparr>rooms := mutate_item name (j_room d)
                 (\<lambda>_. r\<lparr>players := players r @ [player_of (j_player d)]\<rparr>) (rooms s),
             emitted := emitted s @
               [(''room:join'',
                   RoomPlayerData (r\<lparr>players := players r @ [player_of (j_player d)]\<rparr>)
                     (player_of (j_player d))),
                (''room:join:'' @ j_room d,
                   RoomPlayerData (r\<lparr>players := players r @ [player_of (j_player d)]\<rparr>)
                     (player_of (j_player d)))]\<rparr>)"
proof -
  from getById_Some [OF assms] have "name r = j_room d" by simp
  with assms show ?thesis
    by (simp add: onJoinRoom_def Room_addPlayer_def Collection_add_def emit_def Let_def)
qed

lemma onJoinRoom_after:
  assumes "Collection_getById name (rooms s) (j_room d) = Some r"
  shows "Collection_getById name (rooms (onJoinRoom d s)) (j_room d) =
     Some (if Collection_exists client (players r) (d_client (j_player d)) then r
           else r\<lparr>players := players r @ [player_of (j_player d)]\<rparr>)"
proof -
  from getById_Some [OF assms] have "name r = j_room d" by simp
  with assms show ?thesis
    by (simp add: onJoinRoom_eq [OF assms] getById_mutate)
qed

lemma onLeaveRoom_eq:
  assumes "Collection_getById name (rooms s) (l_room d) = Some r"
    and "Collection_getById client (players r) (l_player d) = Some p"
  shows "onLeaveRoom d s =
     s\<lparr>rooms := mutate_item name (l_room d)
            (\<lambda>_. r\<lparr>players := remove_first (\<lambda>q. client q = l_player d) (players r)\<rparr>) (rooms s),
        emitted := emitted s @
          [(''room:leave'',
              RoomPlayerData (r\<lparr>players := remove_first (\<lambda>q. client q = l_player d) (players r)\<rparr>) p),
           (''room:leave:'' @ l_room d,
              RoomPlayerData (r\<lparr>players := remove_first (\<lambda>q. client q = l_player d) (players r)\<rparr>) p)]\<rparr>"
proof -
  from getById_Some [OF assms(1)] getById_Some [OF assms(2)]
  have "name r = l_room d" and "client p = l_player d"
    by simp_all
  moreover from assms(2) have "Collection_exists client (players r) (l_player d)"
    by (simp add: exists_getById)
  ultimately show ?thesis using assms
    by (simp add: onLeaveRoom_def Room_removePlayer_def Collection_remove_def emit_def)
qed

subsection \<open>onPlayerColor and onPlayerReady\<close>

lemma onPlayerColor_eq:
  assumes "Collection_getById name (rooms s) (c_room d) = Some r"
    and "Collection_getById client (players r) (c_player d) = Some p"
  shows "onPlayerColor d s =
     s\<lparr>rooms := mutate_item name (c_room d)
            (\<lambda>_. r\<lparr>players := mutate_item client (c_player d) (\<lambda>_. p\<lparr>color := c_color d\<rparr>) (players r)\<rparr>)
            (rooms s),
        emitted := emitted s @
          [(''room:player:color:'' @ c_room d,
              RoomPlayerData
                (r\<lparr>players := mutate_item client (c_player d) (\<lambda>_. p\<lparr>color := c_color d\<rparr>) (players r)\<rparr>)
                (p\<lparr>color := c_color d\<rparr>))]\<rparr>"
proof -
  from getById_Some [OF assms(1)] have "name r = c_room d" by simp
  with assms show ?thesis
    by (simp add: onPlayerColor_def Player_setColor_def emit_def Let_def)
qed

lemma onPlayerReady_eq:
  assumes "Collection_getById name (rooms s) (r_room d) = Some r"
    and "Collection_getById client (players r) (r_player d) = Some p"
  shows "onPlayerReady d s =
     s\<lparr>rooms := mutate_item name (r_room d)
            (\<lambda>_. r\<lparr>players := mutate_item client (r_player d) (\<lambda>_. p\<lparr>ready := r_ready d\<rparr>) (players r)\<rparr>)
            (rooms s),
        emitted := emitted s @
          [(''room:player:ready:'' @ r_room d,
              RoomPlayerData
                (r\<lparr>players := mutate_item client (r_player d) (\<lambda>_. p\<lparr>ready := r_ready d\<rparr>) (players r)\<rparr>)
                (p\<lparr>ready := r_ready d\<rparr>))]\<rparr>"
proof -
  from getById_Some [OF assms(1)] have "name r = r_room d" by simp
  with assms show ?thesis
    by (simp add: onPlayerReady_def Player_toggleReady_def emit_def Let_def)
qed

lemma onPlayerColor_noop:
  "player_in s (c_room d) (c_player d) = None \<Longrightarrow> onPlayerColor d s = s"
  by (simp add: onPlayerColor_def player_in_def split: option.splits)

lemma onPlayerReady_noop:
  "player_in s (r_room d) (r_player d) = None \<Longrightarrow> onPlayerReady d s = s"
  by (simp add: onPlayerReady_def player_in_def split: option.splits)

lemma onPlayerColor_scoped:
  assumes "player_in s (c_room d) (c_player d) = Some p"
  shows "(case Collection_getById name (rooms (onPlayerColor d s)) (c_room d) of
            None \<Rightarrow> False
          | Some r' \<Rightarrow>
              name r' = c_room d
              \<and> Collection_getById client (players r') (c_player d) = Some (p\<lparr>color := c_color d\<rparr>)
              \<and> emitted (onPlayerColor d s) = emitted s @
                  [(''room:player:color:'' @ name r', RoomPlayerData r' (p\<lparr>color := c_color d\<rparr>))])"
proof -
  from assms obtain r where r: "Collection_getById name (rooms s) (c_room d) = Some r"
    and p: "Collection_getById client (players r) (c_player d) = Some p"
    by (auto simp: player_in_Some)
  from getById_Some [OF r] getById_Some [OF p]
  have "name r = c_room d" and "client p = c_player d" by simp_all
  then show ?thesis
    using r p by (simp add: onPlayerColor_eq [OF r p] getById_mutate)
qed

lemma onPlayerReady_scoped:
  assumes "player_in s (r_room d) (r_player d) = Some p"
  shows "(case Collection_getById name (rooms (onPlayerReady d s)) (r_room d) of
            None \<Rightarrow> False
          | Some r' \<Rightarrow>
              name r' = r_room d
              \<and> Collection_getById client (players r') (r_player d) = Some (p\<lparr>ready := r_ready d\<rparr>)
              \<and> emitted (onPlayerReady d s) = emitted s @
                  [(''room:player:ready:'' @ name r', RoomPlayerData r' (p\<lparr>ready := r_ready d\<rparr>))])"
proof -
  from assms obtain r where r: "Collection_getById name (rooms s) (r_room d) = Some r"
    and p: "Collection_getById client (players r) (r_player d) = Some p"
    by (auto simp: player_in_Some)
  from getById_Some [OF r] getById_Some [OF p]
  have "name r = r_room d" and "client p = r_player d" by simp_all
  then show ?thesis
    using r p by (simp add: onPlayerReady_eq [OF r p] getById_mutate)
qed

lemma onPlayerReady_found:
  assumes "player_in s (r_room d) (r_player d) = Some p"
  shows "player_in (onPlayerReady d s) (r_room d) (r_player d) = Some (p\<lparr>ready := r_ready d\<rparr>)"
  using onPlayerReady_scoped [OF assms] by (simp add: player_in_def split: option.splits)

lemma onPlayerColor_other_rooms:
  "rn \<noteq> c_room d \<Longrightarrow>
   Collection_getById name (rooms (onPlayerColor d s)) rn = Collection_getById name (rooms s) rn"
proof (cases "player_in s (c_room d) (c_player d)")
  case None
  then show ?thesis by (simp add: onPlayerColor_noop)
next
  case (Some p)
  assume other: "rn \<noteq> c_room d"
  from Some obtain r where r: "Collection_getById name (rooms s) (c_room d) = Some r"
    and p: "Collection_getById client (players r) (c_player d) = Some p"
    by (auto simp: player_in_Some)
  from getById_Some [OF r] have "name r = c_room d" by simp
  with other show ?thesis
    by (simp add: onPlayerColor_eq [OF r p] getById_mutate_other)
qed

lemma onPlayerReady_other_rooms:
  "rn \<noteq> r_room d \<Longrightarrow>
   Collection_getById name (rooms (onPlayerReady d s)) rn = Collection_getById name (rooms s) rn"
proof (cases "player_in s (r_room d) (r_player d)")
  case None
  then show ?thesis by (simp add: onPlayerReady_noop)
next
  case (Some p)
  assume other: "rn \<noteq> r_room d"
  from Some obtain r where r: "Collection_getById name (rooms s) (r_room d) = Some r"
    and p: "Collection_getById client (players r) (r_player d) = Some p"
    by (auto simp: player_in_Some)
  from getById_Some [OF r] have "name r = r_room d" by simp
  with other show ?thesis
    by (simp add: onPlayerReady_eq [OF r p] getById_mutate_other)
qed

subsection \<open>The collections keep their keys unique\<close>

text \<open>
  The constructor establishes \<open>unique_keys\<close>, and every handler and \<open>refresh\<close> keep it: it
  holds in every state the repository can reach.  It gives the distinctness that the
  statements about "exactly one" below assume.
\<close>

lemma unique_keys_names: "unique_keys s \<Longrightarrow> distinct (map name (rooms s))"
  by (simp add: unique_keys_def)

lemma set_remove_first: "set (remove_first P xs) \<subseteq> set xs"
  by (induction xs) auto

lemma distinct_remove_first:
  "distinct (map f xs) \<Longrightarrow> distinct (map f (remove_first P xs))"
proof (induction xs)
  case Nil
  then show ?case by simp
next
  case (Cons x xs)
  then show ?case using set_remove_first [of P xs] by auto
qed

lemma list_all_remove_first: "list_all Q xs \<Longrightarrow> list_all Q (remove_first P xs)"
  using set_remove_first [of P xs] by (auto simp: list_all_iff)

lemma list_all_mutate:
  "list_all Q xs \<Longrightarrow> Q y \<Longrightarrow> list_all Q (mutate_item key k (\<lambda>_. y) xs)"
  by (induction xs) (auto simp: mutate_item_def)

lemma distinct_foldl_add:
  "distinct (map key acc) \<Longrightarrow>
   distinct (map key (foldl (\<lambda>ps p. snd (Collection_add key ps p)) acc xs))"
proof (induction xs arbitrary: acc)
  case Nil
  then show ?case by simp
next
  case (Cons x xs)
  from Cons.prems have "distinct (map key (snd (Collection_add key acc x)))"
    by (simp add: Collection_add_def exists_set)
  from Cons.IH [OF this] show ?case by simp
qed

lemma distinct_buildRoom: "distinct (map client (players (buildRoom d)))"
proof -
  have "players (buildRoom d) =
       foldl (\<lambda>ps p. snd (Collection_add client ps p)) [] (rev (map player_of (nr_players d)))"
    by (simp add: buildRoom_def addPlayers_foldl players_foldl_addPlayer new_Room_def)
  then show ?thesis
    using distinct_foldl_add [of client "[]"] by simp
qed

lemma unique_keys_room:
  assumes "unique_keys s" and "Collection_getById name (rooms s) k = Some r"
  shows "distinct (map client (players r))"
proof -
  from getById_Some [OF assms(2)] have "r \<in> set (rooms s)" by simp
  with assms(1) show ?thesis by (simp add: unique_keys_def list_all_iff)
qed

lemma unique_keys_mutate:
  assumes "unique_keys s" and "name r' = k" and "distinct (map client (players r'))"
  shows "unique_keys (s\<lparr>rooms := mutate_item name k (\<lambda>_. r') (rooms s), emitted := es\<rparr>)"
  using assms by (simp add: unique_keys_def map_key_mutate list_all_mutate)

lemma unique_keys_constructor: "unique_keys RoomRepository"
  by (simp add: unique_keys_def RoomRepository_def)

lemma unique_keys_onNewRoom: "unique_keys s \<Longrightarrow> unique_keys (onNewRoom d s)"
  by (simp add: unique_keys_def onNewRoom_rooms distinct_buildRoom) (simp add: exists_set)

lemma unique_keys_onCloseRoom: "unique_keys s \<Longrightarrow> unique_keys (onCloseRoom n s)"
  by (simp add: unique_keys_def onCloseRoom_def get_def Collection_remove_def emit_def
      distinct_remove_first list_all_remove_first split: option.splits)

lemma unique_keys_onJoinRoom:
  assumes "unique_keys s"
  shows "unique_keys (onJoinRoom d s)"
proof (cases "Collection_getById name (rooms s) (j_room d)")
  case None
  with assms show ?thesis by (simp add: onJoinRoom_def)
next
  case (Some r)
  from getById_Some [OF Some] have n: "name r = j_room d" by simp
  show ?thesis
  proof (cases "Collection_exists client (players r) (d_client (j_player d))")
    case True
    with assms show ?thesis by (simp add: onJoinRoom_eq [OF Some])
  next
    case False
    with unique_keys_room [OF assms Some]
    have "distinct (map client (players (r\<lparr>players := players r @ [player_of (j_player d)]\<rparr>)))"
      by (simp add: exists_set)
    from unique_keys_mutate [OF assms _ this] n False show ?thesis
      by (simp add: onJoinRoom_eq [OF Some])
  qed
qed

lemma unique_keys_onLeaveRoom:
  assumes "unique_keys s"
  shows "unique_keys (onLeaveRoom d s)"
proof (cases "Collection_getById name (rooms s) (l_room d)")
  case None
  with assms show ?thesis by (simp add: onLeaveRoom_def)
next
  case (Some r)
  from getById_Some [OF Some] have n: "name r = l_room d" by simp
  show ?thesis
  proof (cases "Collection_getById client (players r) (l_player d)")
    case None
    with assms Some show ?thesis by (simp add: onLeaveRoom_def)
  next
    case p: (Some p)
    from unique_keys_room [OF assms Some]
    have "distinct (map client
        (players (r\<lparr>players := remove_first (\<lambda>q. client q = l_player d) (players r)\<rparr>)))"
      by (simp add: distinct_remove_first)
    from unique_keys_mutate [OF assms _ this] n show ?thesis
      by (simp add: onLeaveRoom_eq [OF Some p])
  qed
qed

lemma unique_keys_onPlayerColor:
  assumes "unique_keys s"
  shows "unique_keys (onPlayerColor d s)"
proof (cases "Collection_getById name (rooms s) (c_room d)")
  case None
  with assms show ?thesis by (simp add: onPlayerColor_def)
next
  case (Some r)
  from getById_Some [OF Some] have n: "name r = c_room d" by simp
  show ?thesis
  proof (cases "Collection_getById client (players r) (c_player d)")
    case None
    with assms Some show ?thesis by (simp add: onPlayerColor_def)
  next
    case p: (Some p)
    from getById_Some [OF p] have "client (p\<lparr>color := c_color d\<rparr>) = c_player d" by simp
    with unique_keys_room [OF assms Some]
    have "distinct (map client (players
        (r\<lparr>players := mutate_item client (c_player d) (\<lambda>_. p\<lparr>color := c_color d\<rparr>) (players r)\<rparr>)))"
      by (simp add: map_key_mutate)
    from unique_keys_mutate [OF assms _ this] n show ?thesis
      by (simp add: onPlayerColor_eq [OF Some p])
  qed
qed

lemma unique_keys_onPlayerReady:
  assumes "unique_keys s"
  shows "unique_keys (onPlayerReady d s)"
proof (cases "Collection_getById name (rooms s) (r_room d)")
  case None
  with assms show ?thesis by (simp add: onPlayerReady_def)
next
  case (Some r)
  from getById_Some [OF Some] have n: "name r = r_room d" by simp
  show ?thesis
  proof (cases "Collection_getById client (players r) (r_player d)")
    case None
    with assms Some show ?thesis by (simp add: onPlayerReady_def)
  next
    case p: (Some p)
    from getById_Some [OF p] have "client (p\<lparr>ready := r_ready d\<rparr>) = r_player d" by simp
    with unique_keys_room [OF assms Some]
    have "distinct (map client (players
        (r\<lparr>players := mutate_item client (r_player d) (\<lambda>_. p\<lparr>ready := r_ready d\<rparr>) (players r)\<rparr>)))"
      by (simp add: map_key_mutate)
    from unique_keys_mutate [OF assms _ this] n show ?thesis
      by (simp add: onPlayerReady_eq [OF Some p])
  qed
qed

lemma unique_keys_onWarmupRoom: "unique_keys s \<Longrightarrow> unique_keys (onWarmupRoom n s)"
  by (simp add: unique_keys_def onWarmupRoom_def emit_def split: option.splits)

lemma unique_keys_deliver: "unique_keys s \<Longrightarrow> unique_keys (deliver e s)"
  by (cases e)
     (simp_all add: unique_keys_onNewRoom unique_keys_onCloseRoom unique_keys_onJoinRoom
        unique_keys_onLeaveRoom unique_keys_onWarmupRoom unique_keys_onPlayerReady
        unique_keys_onPlayerColor)

lemma unique_keys_run: "unique_keys s \<Longrightarrow> unique_keys (run es s)"
  by (induction es arbitrary: s) (auto simp: unique_keys_deliver)

lemma unique_keys_refresh: "unique_keys (snd (refresh g s))"
  by (simp add: unique_keys_def refresh_def io_emit_def Let_def split: option.splits)

lemma unique_keys_reachable: "unique_keys (run es RoomRepository)"
  by (rule unique_keys_run [OF unique_keys_constructor])

subsection \<open>The example states\<close>

lemma lobby_eval:
  "lobby = \<lparr>synced = True, rooms = [lobby1_room], sent = [],
            emitted = [(''room:new'', RoomData lobby1_room), (''synced'', NoData)]\<rparr>"
  by (simp add: lobby_def fresh_def RoomRepository_def onNewRoom_def buildRoom_def new_Room_def
      Room_addPlayer_def Collection_add_def Collection_exists_def player_of_def new_Player_def
      setSynced_def emit_def alice_def lobby1_room_def alice_player_def Let_def)

lemma two_lobbies_eval:
  "two_lobbies = \<lparr>synced = True, rooms = [lobby1_room, lobby2_room], sent = [],
      emitted = [(''room:new'', RoomData lobby1_room), (''synced'', NoData),
                 (''room:new'', RoomData lobby2_room)]\<rparr>"
  by (simp add: two_lobbies_def lobby_eval onNewRoom_def buildRoom_def new_Room_def
      Room_addPlayer_def Collection_add_def Collection_exists_def player_of_def new_Player_def
      setSynced_def emit_def bob_def lobby1_room_def lobby2_room_def bob_player_def Let_def)

section \<open>The claims\<close>

text \<open>
  C1: when two new-room events carry the same room name, the second one changes nothing
  at all: the state after it is the state before it, so the room collection is unchanged
  and nothing is published.  With room names unique before, exactly one room of the
  collection has that name afterwards.  A new-room event appends its room and publishes
  \<open>room:new\<close> once exactly when no room of that name was present, and otherwise does
  neither.
\<close>

theorem new_room_twice:
  "nr_name d2 = nr_name d1 \<Longrightarrow> distinct (map name (rooms s)) \<Longrightarrow>
   onNewRoom d2 (onNewRoom d1 s) = onNewRoom d1 s
   \<and> length (filter (\<lambda>r. name r = nr_name d1) (rooms (onNewRoom d2 (onNewRoom d1 s)))) = 1
   \<and> rooms (onNewRoom d1 s) =
       (if Collection_exists name (rooms s) (nr_name d1) then rooms s else rooms s @ [buildRoom d1])
   \<and> count_event ''room:new'' (onNewRoom d1 s) =
       count_event ''room:new'' s + (if Collection_exists name (rooms s) (nr_name d1) then 0 else 1)"
proof -
  assume same: "nr_name d2 = nr_name d1" and dist: "distinct (map name (rooms s))"
  have "Collection_exists name (rooms (onNewRoom d1 s)) (nr_name d2)"
    using onNewRoom_exists [of d1 s] same by simp
  then have twice: "onNewRoom d2 (onNewRoom d1 s) = onNewRoom d1 s"
    by (rule onNewRoom_noop) (rule onNewRoom_synced)
  have "length (filter (\<lambda>r. name r = nr_name d1) (rooms (onNewRoom d1 s))) = 1"
    using count_key_distinct [OF onNewRoom_distinct [OF dist, of d1], where k = "nr_name d1"]
      onNewRoom_exists [of d1 s] by simp
  with twice show ?thesis
    by (simp add: onNewRoom_count_new) (simp add: onNewRoom_rooms)
qed

theorem new_room_twice_witness:
  "nr_name lobby1_again = nr_name lobby1_snapshot
   \<and> distinct (map name (rooms fresh))
   \<and> onNewRoom lobby1_again (onNewRoom lobby1_snapshot fresh) = onNewRoom lobby1_snapshot fresh
   \<and> length (filter (\<lambda>r. name r = nr_name lobby1_snapshot)
        (rooms (onNewRoom lobby1_again (onNewRoom lobby1_snapshot fresh)))) = 1
   \<and> count_event ''room:new'' (onNewRoom lobby1_again (onNewRoom lobby1_snapshot fresh)) = 1"
proof -
  have h1: "nr_name lobby1_again = nr_name lobby1_snapshot"
    by (simp add: lobby1_again_def lobby1_snapshot_def)
  have h2: "distinct (map name (rooms fresh))"
    by (simp add: fresh_def RoomRepository_def)
  note T = new_room_twice [OF h1 h2]
  have t1: "onNewRoom lobby1_again (onNewRoom lobby1_snapshot fresh) = onNewRoom lobby1_snapshot fresh"
    by (rule T [THEN conjunct1])
  have t2: "length (filter (\<lambda>r. name r = nr_name lobby1_snapshot)
        (rooms (onNewRoom lobby1_again (onNewRoom lobby1_snapshot fresh)))) = 1"
    by (rule T [THEN conjunct2, THEN conjunct1])
  have "count_event ''room:new'' (onNewRoom lobby1_snapshot fresh) = 1"
    by (simp add: T [THEN conjunct2, THEN conjunct2, THEN conjunct2])
       (simp add: fresh_def RoomRepository_def count_event_def Collection_exists_def)
  then have t3: "count_event ''room:new'' (onNewRoom lobby1_again (onNewRoom lobby1_snapshot fresh)) = 1"
    by (simp only: t1)
  show ?thesis
    by (intro conjI) (fact h1 h2 t1 t2 t3)+
qed

text \<open>
  C2: for a join-room event that names an existing room \<open>r\<close>: when a player with the
  payload's client id is already in \<open>r\<close>, the handler changes nothing and publishes
  nothing; otherwise the player built from the payload is appended to the players of
  \<open>r\<close>, and \<open>room:join\<close> and then \<open>room:join:<roomName>\<close> are published, both carrying the
  room and the player.  A second join-room event for the same room and client id changes
  nothing and publishes nothing, and the room then holds exactly one player with that
  client id (the client ids of \<open>r\<close> being unique before).
\<close>

theorem join_adds_once:
  "Collection_getById name (rooms s) (j_room d) = Some r \<Longrightarrow>
   j_room d' = j_room d \<Longrightarrow> d_client (j_player d') = d_client (j_player d) \<Longrightarrow>
   distinct (map client (players r)) \<Longrightarrow>
   onJoinRoom d s =
     (if Collection_exists client (players r) (d_client (j_player d)) then s
      else s\<lparr>rooms := mutate_item name (j_room d)
                 (\<lambda>_. r\<lparr>players := players r @ [player_of (j_player d)]\<rparr>) (rooms s),
             emitted := emitted s @
               [(''room:join'',
                   RoomPlayerData (r\<lparr>players := players r @ [player_of (j_player d)]\<rparr>)
                     (player_of (j_player d))),
                (''room:join:'' @ j_room d,
                   RoomPlayerData (r\<lparr>players := players r @ [player_of (j_player d)]\<rparr>)
                     (player_of (j_player d)))]\<rparr>)
   \<and> onJoinRoom d' (onJoinRoom d s) = onJoinRoom d s
   \<and> map_option (\<lambda>r'. length (filter (\<lambda>q. client q = d_client (j_player d)) (players r')))
        (Collection_getById name (rooms (onJoinRoom d s)) (j_room d)) = Some 1"
proof -
  assume r: "Collection_getById name (rooms s) (j_room d) = Some r"
    and room: "j_room d' = j_room d"
    and key: "d_client (j_player d') = d_client (j_player d)"
    and dist: "distinct (map client (players r))"
  define r' where "r' = (if Collection_exists client (players r) (d_client (j_player d)) then r
             else r\<lparr>players := players r @ [player_of (j_player d)]\<rparr>)"
  have after: "Collection_getById name (rooms (onJoinRoom d s)) (j_room d) = Some r'"
    unfolding r'_def by (rule onJoinRoom_after [OF r])
  then have after': "Collection_getById name (rooms (onJoinRoom d s)) (j_room d') = Some r'"
    by (simp only: room)
  have ex: "Collection_exists client (players r') (d_client (j_player d))"
    by (simp add: r'_def exists_set)
  then have ex': "Collection_exists client (players r') (d_client (j_player d'))"
    by (simp only: key)
  have twice: "onJoinRoom d' (onJoinRoom d s) = onJoinRoom d s"
    by (simp only: onJoinRoom_eq [OF after'] ex' if_True)
  have "distinct (map client (players r'))"
    using dist by (simp add: r'_def exists_set)
  from count_key_distinct [OF this, where k = "d_client (j_player d)"] ex
  have "length (filter (\<lambda>q. client q = d_client (j_player d)) (players r')) = 1"
    by simp
  then have one:
    "map_option (\<lambda>r'. length (filter (\<lambda>q. client q = d_client (j_player d)) (players r')))
       (Collection_getById name (rooms (onJoinRoom d s)) (j_room d)) = Some 1"
    by (simp only: after option.map)
  note eq = onJoinRoom_eq [OF r]
  show ?thesis
    by (intro conjI) (rule eq, rule twice, rule one)
qed

theorem join_adds_once_witness:
  "Collection_getById name (rooms lobby) (j_room bob_joins) = Some lobby1_room
   \<and> j_room bob_joins_again = j_room bob_joins
   \<and> d_client (j_player bob_joins_again) = d_client (j_player bob_joins)
   \<and> distinct (map client (players lobby1_room))
   \<and> onJoinRoom bob_joins_again (onJoinRoom bob_joins lobby) = onJoinRoom bob_joins lobby
   \<and> map_option (\<lambda>r'. length (filter (\<lambda>q. client q = d_client (j_player bob_joins)) (players r')))
        (Collection_getById name (rooms (onJoinRoom bob_joins lobby)) (j_room bob_joins)) = Some 1
   \<and> map fst (emitted (onJoinRoom bob_joins lobby)) =
        [''room:new'', ''synced'', ''room:join'', ''room:join:lobby1'']
   \<and> rooms (onJoinRoom bob_joins lobby) =
        [\<lparr>name = ''lobby1'', players = [alice_player, bob_player]\<rparr>]"
proof -
  have h1: "Collection_getById name (rooms lobby) (j_room bob_joins) = Some lobby1_room"
    by (simp add: lobby_eval Collection_getById_def bob_joins_def lobby1_room_def)
  have h2: "j_room bob_joins_again = j_room bob_joins"
    by (simp add: bob_joins_def bob_joins_again_def)
  have h3: "d_client (j_player bob_joins_again) = d_client (j_player bob_joins)"
    by (simp add: bob_joins_def bob_joins_again_def)
  have h4: "distinct (map client (players lobby1_room))"
    by (simp add: lobby1_room_def)
  note T = join_adds_once [OF h1 h2 h3 h4]
  note t2 = T [THEN conjunct2, THEN conjunct1]
  note t3 = T [THEN conjunct2, THEN conjunct2]
  have eq: "onJoinRoom bob_joins lobby =
      lobby\<lparr>rooms := [\<lparr>name = ''lobby1'', players = [alice_player, bob_player]\<rparr>],
            emitted := emitted lobby @
              [(''room:join'',
                  RoomPlayerData \<lparr>name = ''lobby1'', players = [alice_player, bob_player]\<rparr> bob_player),
               (''room:join:lobby1'',
                  RoomPlayerData \<lparr>name = ''lobby1'', players = [alice_player, bob_player]\<rparr> bob_player)]\<rparr>"
    by (simp add: T [THEN conjunct1])
       (simp add: lobby_eval bob_joins_def bob_def lobby1_room_def alice_player_def bob_player_def
          player_of_def new_Player_def Collection_exists_def mutate_item_def)
  have t4: "map fst (emitted (onJoinRoom bob_joins lobby)) =
        [''room:new'', ''synced'', ''room:join'', ''room:join:lobby1'']"
    by (simp add: eq) (simp add: lobby_eval)
  have t5: "rooms (onJoinRoom bob_joins lobby) =
        [\<lparr>name = ''lobby1'', players = [alice_player, bob_player]\<rparr>]"
    by (simp add: eq)
  show ?thesis
    by (intro conjI) (fact h1 h2 h3 h4 t2 t3 t4 t5)+
qed

text \<open>
  C3: the flag \<open>synced\<close> is false after construction and after \<open>refresh\<close>.  A new-room event
  always leaves it true, and it publishes \<open>synced\<close> exactly when the flag was false before:
  once for the first new-room event, never for a later one.  Along any sequence of
  transport events the flag is true as soon as a new-room event has been delivered, and
  the sequence publishes \<open>synced\<close> once if it starts unsynced and contains a new-room event,
  and not at all otherwise.
\<close>

theorem synced_flips_once:
  "synced (RoomRepository :: ('v, 'cb) repository) = False
   \<and> synced (snd (refresh g (s0 :: ('v, 'cb) repository))) = False
   \<and> synced (onNewRoom d s)
   \<and> count_event ''synced'' (onNewRoom d s) = count_event ''synced'' s + (if synced s then 0 else 1)
   \<and> synced (run es s) = (synced s \<or> list_ex is_RoomNew es)
   \<and> count_event ''synced'' (run es s) =
       count_event ''synced'' s + (if \<not> synced s \<and> list_ex is_RoomNew es then 1 else 0)"
proof -
  have "synced (snd (refresh g s0)) = False"
    by (simp add: refresh_def io_emit_def Let_def split: option.splits)
  then show ?thesis
    by (simp add: RoomRepository_def onNewRoom_synced onNewRoom_count run_synced run_count)
qed

theorem synced_flips_once_witness:
  "synced fresh = False
   \<and> synced (onNewRoom lobby1_snapshot fresh)
   \<and> count_event ''synced'' (onNewRoom lobby1_snapshot fresh) = 1
   \<and> synced (run [RoomNew lobby1_snapshot, RoomJoin bob_joins, RoomNew lobby1_again] fresh)
   \<and> count_event ''synced''
        (run [RoomNew lobby1_snapshot, RoomJoin bob_joins, RoomNew lobby1_again] fresh) = 1
   \<and> count_event ''synced'' (run [RoomJoin bob_joins, RoomStart ''lobby1''] fresh) = 0"
proof -
  note T = synced_flips_once [where s = fresh and d = lobby1_snapshot]
  have f: "synced fresh = False"
    by (simp add: fresh_def RoomRepository_def)
  have c: "count_event ''synced'' fresh = 0"
    by (simp add: fresh_def RoomRepository_def count_event_def)
  note t1 = T [THEN conjunct2, THEN conjunct2, THEN conjunct1]
  have t2: "count_event ''synced'' (onNewRoom lobby1_snapshot fresh) = 1"
    using T [THEN conjunct2, THEN conjunct2, THEN conjunct2, THEN conjunct1] f c by simp
  have t3: "synced (run [RoomNew lobby1_snapshot, RoomJoin bob_joins, RoomNew lobby1_again] fresh)"
    using T [where es = "[RoomNew lobby1_snapshot, RoomJoin bob_joins, RoomNew lobby1_again]",
        THEN conjunct2, THEN conjunct2, THEN conjunct2, THEN conjunct2, THEN conjunct1]
    by simp
  have t4: "count_event ''synced''
        (run [RoomNew lobby1_snapshot, RoomJoin bob_joins, RoomNew lobby1_again] fresh) = 1"
    using T [where es = "[RoomNew lobby1_snapshot, RoomJoin bob_joins, RoomNew lobby1_again]",
        THEN conjunct2, THEN conjunct2, THEN conjunct2, THEN conjunct2, THEN conjunct2] f c
    by simp
  have t5: "count_event ''synced'' (run [RoomJoin bob_joins, RoomStart ''lobby1''] fresh) = 0"
    using T [where es = "[RoomJoin bob_joins, RoomStart ''lobby1'']",
        THEN conjunct2, THEN conjunct2, THEN conjunct2, THEN conjunct2, THEN conjunct2] f c
    by simp
  show ?thesis
    by (intro conjI) (fact f t1 t2 t3 t4 t5)+
qed

text \<open>
  C4: a leave-room event whose room is absent, or whose player is not among the players
  of the named room, leaves the state as it is: nothing is mutated, nothing published.
  When the room \<open>r\<close> and the player \<open>p\<close> in it are both found, the first player of \<open>r\<close> with
  that client id is removed, and \<open>room:leave\<close> and then \<open>room:leave:<roomName>\<close> are
  published, both carrying the room and the player; with unique client ids the player
  is no longer found in the room afterwards.
\<close>

theorem leave_only_when_present:
  "(Collection_getById name (rooms s) (l_room d) = None \<longrightarrow> onLeaveRoom d s = s)
   \<and> (Collection_getById name (rooms s) (l_room d) = Some r \<longrightarrow>
        Collection_getById client (players r) (l_player d) = None \<longrightarrow> onLeaveRoom d s = s)
   \<and> (Collection_getById name (rooms s) (l_room d) = Some r \<longrightarrow>
        Collection_getById client (players r) (l_player d) = Some p \<longrightarrow>
        onLeaveRoom d s =
          s\<lparr>rooms := mutate_item name (l_room d)
                 (\<lambda>_. r\<lparr>players := remove_first (\<lambda>q. client q = l_player d) (players r)\<rparr>) (rooms s),
             emitted := emitted s @
               [(''room:leave'',
                   RoomPlayerData (r\<lparr>players := remove_first (\<lambda>q. client q = l_player d) (players r)\<rparr>) p),
                (''room:leave:'' @ l_room d,
                   RoomPlayerData (r\<lparr>players := remove_first (\<lambda>q. client q = l_player d) (players r)\<rparr>) p)]\<rparr>
        \<and> (distinct (map client (players r)) \<longrightarrow>
             player_in (onLeaveRoom d s) (l_room d) (l_player d) = None))"
proof -
  have "player_in (onLeaveRoom d s) (l_room d) (l_player d) = None"
    if r: "Collection_getById name (rooms s) (l_room d) = Some r"
      and p: "Collection_getById client (players r) (l_player d) = Some p"
      and dist: "distinct (map client (players r))"
  proof -
    from getById_Some [OF r] have "name r = l_room d" by simp
    then show ?thesis
      using r dist
      by (simp add: onLeaveRoom_eq [OF r p] player_in_def getById_mutate getById_remove_first)
  qed
  moreover have "onLeaveRoom d s = s" if "Collection_getById name (rooms s) (l_room d) = None"
    using that by (simp add: onLeaveRoom_def)
  moreover have "onLeaveRoom d s = s"
    if "Collection_getById name (rooms s) (l_room d) = Some r"
      and "Collection_getById client (players r) (l_player d) = None"
    using that by (simp add: onLeaveRoom_def)
  ultimately show ?thesis
    using onLeaveRoom_eq [of s d r p] by blast
qed

theorem leave_only_when_present_witness:
  "Collection_getById name (rooms lobby) (l_room leave_ghost) = None
   \<and> onLeaveRoom leave_ghost lobby = lobby
   \<and> Collection_getById name (rooms lobby) (l_room leave_stranger) = Some lobby1_room
   \<and> Collection_getById client (players lobby1_room) (l_player leave_stranger) = None
   \<and> onLeaveRoom leave_stranger lobby = lobby
   \<and> Collection_getById name (rooms lobby) (l_room leave_alice) = Some lobby1_room
   \<and> Collection_getById client (players lobby1_room) (l_player leave_alice) = Some alice_player
   \<and> distinct (map client (players lobby1_room))
   \<and> player_in (onLeaveRoom leave_alice lobby) (l_room leave_alice) (l_player leave_alice) = None
   \<and> rooms (onLeaveRoom leave_alice lobby) = [\<lparr>name = ''lobby1'', players = []\<rparr>]
   \<and> emitted (onLeaveRoom leave_alice lobby) = emitted lobby @
        [(''room:leave'', RoomPlayerData \<lparr>name = ''lobby1'', players = []\<rparr> alice_player),
         (''room:leave:lobby1'', RoomPlayerData \<lparr>name = ''lobby1'', players = []\<rparr> alice_player)]"
proof -
  have a1: "Collection_getById name (rooms lobby) (l_room leave_ghost) = None"
    by (simp add: lobby_eval Collection_getById_def leave_ghost_def lobby1_room_def)
  have b1: "Collection_getById name (rooms lobby) (l_room leave_stranger) = Some lobby1_room"
    by (simp add: lobby_eval Collection_getById_def leave_stranger_def lobby1_room_def)
  have b2: "Collection_getById client (players lobby1_room) (l_player leave_stranger) = None"
    by (simp add: Collection_getById_def leave_stranger_def lobby1_room_def alice_player_def)
  have c1: "Collection_getById name (rooms lobby) (l_room leave_alice) = Some lobby1_room"
    by (simp add: lobby_eval Collection_getById_def leave_alice_def lobby1_room_def)
  have c2: "Collection_getById client (players lobby1_room) (l_player leave_alice) = Some alice_player"
    by (simp add: Collection_getById_def leave_alice_def lobby1_room_def alice_player_def)
  have c3: "distinct (map client (players lobby1_room))"
    by (simp add: lobby1_room_def)
  note a = leave_only_when_present [of lobby leave_ghost, THEN conjunct1, rule_format, OF a1]
  note b = leave_only_when_present
    [of lobby leave_stranger lobby1_room, THEN conjunct2, THEN conjunct1, rule_format, OF b1 b2]
  note c = leave_only_when_present
    [of lobby leave_alice lobby1_room alice_player, THEN conjunct2, THEN conjunct2, rule_format, OF c1 c2]
  note c4 = c [THEN conjunct2, rule_format, OF c3]
  have c5: "rooms (onLeaveRoom leave_alice lobby) = [\<lparr>name = ''lobby1'', players = []\<rparr>]"
    by (simp add: c [THEN conjunct1])
       (simp add: lobby_eval leave_alice_def lobby1_room_def alice_player_def mutate_item_def)
  have c6: "emitted (onLeaveRoom leave_alice lobby) = emitted lobby @
        [(''room:leave'', RoomPlayerData \<lparr>name = ''lobby1'', players = []\<rparr> alice_player),
         (''room:leave:lobby1'', RoomPlayerData \<lparr>name = ''lobby1'', players = []\<rparr> alice_player)]"
    by (simp add: c [THEN conjunct1])
       (simp add: leave_alice_def lobby1_room_def alice_player_def)
  show ?thesis
    by (intro conjI) (fact a1 a b1 b2 b c1 c2 c3 c4 c5 c6)+
qed

text \<open>
  C5: whatever the state before, and whether or not the request that follows can be
  sent, \<open>refresh\<close> leaves the flag \<open>synced\<close> false and the room collection empty.
\<close>

theorem refresh_clears_state:
  "synced (snd (refresh g s)) = False \<and> rooms (snd (refresh g s)) = []"
  by (simp add: refresh_def io_emit_def Let_def split: option.splits)

theorem refresh_clears_state_witness:
  "synced two_lobbies
   \<and> rooms two_lobbies = [lobby1_room, lobby2_room]
   \<and> synced (snd (refresh no_globals two_lobbies)) = False
   \<and> rooms (snd (refresh no_globals two_lobbies)) = []
   \<and> fst (refresh no_globals two_lobbies) = Some (ReferenceError ''room'')"
proof -
  have a: "synced two_lobbies" and b: "rooms two_lobbies = [lobby1_room, lobby2_room]"
    by (simp_all add: two_lobbies_eval)
  note T = refresh_clears_state [of no_globals two_lobbies]
  have e: "fst (refresh no_globals two_lobbies) = Some (ReferenceError ''room'')"
    by (simp add: refresh_def no_globals_def)
  show ?thesis
    by (intro conjI) (fact a b T [THEN conjunct1] T [THEN conjunct2] e)+
qed

text \<open>
  C6: each of \<open>create\<close>, \<open>join\<close>, \<open>addPlayer\<close>, \<open>leave\<close>, \<open>setColor\<close> and \<open>setReady\<close> hands
  exactly one message to the transport, with its payload and the caller's callback, and
  changes nothing else: the state afterwards is the state before with that one message
  appended to the transport's log.
\<close>

theorem requests_only_send:
  "create n cb s =
     s\<lparr>sent := sent s @ [\<lparr>m_event = ''room:create'', m_payload = Some [(''name'', n)], m_callback = cb\<rparr>]\<rparr>
   \<and> join r cb s =
     s\<lparr>sent := sent s @ [\<lparr>m_event = ''room:join'', m_payload = Some [(''room'', r)], m_callback = cb\<rparr>]\<rparr>
   \<and> addPlayer n cb s =
     s\<lparr>sent := sent s @ [\<lparr>m_event = ''room:player:add'', m_payload = Some [(''name'', n)], m_callback = cb\<rparr>]\<rparr>
   \<and> leave cb s =
     s\<lparr>sent := sent s @ [\<lparr>m_event = ''room:leave'', m_payload = None, m_callback = cb\<rparr>]\<rparr>
   \<and> setColor r p col cb s =
     s\<lparr>sent := sent s @ [\<lparr>m_event = ''room:color'',
          m_payload = Some [(''room'', r), (''player'', p), (''color'', col)], m_callback = cb\<rparr>]\<rparr>
   \<and> setReady r p cb s =
     s\<lparr>sent := sent s @ [\<lparr>m_event = ''room:ready'',
          m_payload = Some [(''room'', r), (''player'', p)], m_callback = cb\<rparr>]\<rparr>"
  by (simp add: create_def join_def addPlayer_def leave_def setColor_def setReady_def io_emit_def)

theorem requests_only_send_witness:
  "sent (create ''lobby3'' (Some ()) lobby) =
     [\<lparr>m_event = ''room:create'', m_payload = Some [(''name'', ''lobby3'')], m_callback = Some ()\<rparr>]
   \<and> rooms (create ''lobby3'' (Some ()) lobby) = [lobby1_room]
   \<and> synced (create ''lobby3'' (Some ()) lobby)
   \<and> emitted (create ''lobby3'' (Some ()) lobby) = emitted lobby
   \<and> sent (leave None lobby) = [\<lparr>m_event = ''room:leave'', m_payload = None, m_callback = None\<rparr>]
   \<and> rooms (leave None lobby) = [lobby1_room]"
  using requests_only_send [of "''lobby3''" "Some ()" lobby]
    requests_only_send [where cb = None and s = lobby]
  by (simp add: lobby_eval)

text \<open>
  C7: when the player named by a player-ready event is found in the named room, the
  player's ready flag afterwards is the boolean of the event, whatever it was before; a
  second event for the same player carrying another boolean sets the flag to that one.
  So \<open>ready: true\<close> makes the flag true, and \<open>ready: false\<close> after it makes it false.
\<close>

theorem ready_is_overwritten:
  "player_in s (r_room d) (r_player d) = Some p \<Longrightarrow>
   player_in (onPlayerReady d s) (r_room d) (r_player d) = Some (p\<lparr>ready := r_ready d\<rparr>)
   \<and> player_in (onPlayerReady (d\<lparr>r_ready := b\<rparr>) (onPlayerReady d s)) (r_room d) (r_player d)
       = Some (p\<lparr>ready := b\<rparr>)"
proof -
  assume p: "player_in s (r_room d) (r_player d) = Some p"
  have first: "player_in (onPlayerReady d s) (r_room d) (r_player d) = Some (p\<lparr>ready := r_ready d\<rparr>)"
    by (rule onPlayerReady_found [OF p])
  then have "player_in (onPlayerReady d s) (r_room (d\<lparr>r_ready := b\<rparr>)) (r_player (d\<lparr>r_ready := b\<rparr>))
      = Some (p\<lparr>ready := r_ready d\<rparr>)"
    by simp
  from onPlayerReady_found [OF this] first show ?thesis by simp
qed

theorem ready_is_overwritten_witness:
  "player_in lobby (r_room ready_on) (r_player ready_on) = Some alice_player
   \<and> r_ready ready_on = True
   \<and> player_in (onPlayerReady ready_on lobby) (r_room ready_on) (r_player ready_on)
       = Some (alice_player\<lparr>ready := r_ready ready_on\<rparr>)
   \<and> player_in (onPlayerReady (ready_on\<lparr>r_ready := False\<rparr>) (onPlayerReady ready_on lobby))
        (r_room ready_on) (r_player ready_on)
       = Some (alice_player\<lparr>ready := False\<rparr>)"
proof -
  have h: "player_in lobby (r_room ready_on) (r_player ready_on) = Some alice_player"
    by (simp add: player_in_def lobby_eval Collection_getById_def ready_on_def lobby1_room_def
        alice_player_def)
  have v: "r_ready ready_on = True"
    by (simp add: ready_on_def)
  note T = ready_is_overwritten [OF h, of False]
  note t1 = T [THEN conjunct1]
  note t2 = T [THEN conjunct2]
  show ?thesis
    by (intro conjI) (fact h v t1 t2)+
qed

text \<open>
  C8: the handler of \<open>room:start\<close> changes neither the flag \<open>synced\<close> nor the room
  collection (so no room and no player of a room), nor does it send anything.  It publishes
  \<open>room:start\<close> and \<open>room:start:<roomName>\<close>, in this order, when the named room exists, and
  nothing when it does not.
\<close>

theorem warmup_only_notifies:
  "synced (onWarmupRoom n s) = synced s
   \<and> rooms (onWarmupRoom n s) = rooms s
   \<and> sent (onWarmupRoom n s) = sent s
   \<and> emitted (onWarmupRoom n s) = emitted s @
        (case Collection_getById name (rooms s) n of
           None \<Rightarrow> []
         | Some r \<Rightarrow> [(''room:start'', RoomData r), (''room:start:'' @ n, RoomData r)])
   \<and> (emitted (onWarmupRoom n s) = emitted s) = (\<not> Collection_exists name (rooms s) n)"
  by (auto simp: onWarmupRoom_def emit_def exists_getById split: option.splits dest: getById_Some)

theorem warmup_only_notifies_witness:
  "rooms (onWarmupRoom ''lobby1'' lobby) = rooms lobby
   \<and> emitted (onWarmupRoom ''lobby1'' lobby) = emitted lobby @
        [(''room:start'', RoomData lobby1_room), (''room:start:lobby1'', RoomData lobby1_room)]
   \<and> emitted (onWarmupRoom ''ghost'' lobby) = emitted lobby
   \<and> rooms (onWarmupRoom ''ghost'' lobby) = rooms lobby"
  using warmup_only_notifies [of "''lobby1''" lobby] warmup_only_notifies [of "''ghost''" lobby]
  by (simp add: lobby_eval Collection_getById_def lobby1_room_def)

text \<open>
  C9: the handlers of player-color and player-ready look the player up inside the room
  that the event names, and nowhere else.  No room of that name means no player found,
  whatever the other rooms hold.  When the player is not found (room absent, or no such
  client id among that room's players), the state stays as it is: nothing mutated,
  nothing published.  When the player is found, the room stored under the event's room
  name afterwards holds the player with the new colour (the new ready flag), exactly one
  notification \<open>room:player:color:<roomName>\<close> (\<open>room:player:ready:<roomName>\<close>) is
  published, scoped by that room's name and carrying that room and that player, and
  the lookup of every other room name gives what it gave before.
\<close>

theorem color_and_ready_are_room_scoped:
  "(Collection_getById name (rooms s) rn = None \<longrightarrow> player_in s rn c = None)
   \<and> (player_in s (c_room cd) (c_player cd) = None \<longrightarrow> onPlayerColor cd s = s)
   \<and> (player_in s (r_room rd) (r_player rd) = None \<longrightarrow> onPlayerReady rd s = s)
   \<and> (player_in s (c_room cd) (c_player cd) = Some p \<longrightarrow>
        (case Collection_getById name (rooms (onPlayerColor cd s)) (c_room cd) of
           None \<Rightarrow> False
         | Some r' \<Rightarrow>
             name r' = c_room cd
             \<and> Collection_getById client (players r') (c_player cd) = Some (p\<lparr>color := c_color cd\<rparr>)
             \<and> emitted (onPlayerColor cd s) = emitted s @
                 [(''room:player:color:'' @ name r', RoomPlayerData r' (p\<lparr>color := c_color cd\<rparr>))]))
   \<and> (player_in s (r_room rd) (r_player rd) = Some q \<longrightarrow>
        (case Collection_getById name (rooms (onPlayerReady rd s)) (r_room rd) of
           None \<Rightarrow> False
         | Some r' \<Rightarrow>
             name r' = r_room rd
             \<and> Collection_getById client (players r') (r_player rd) = Some (q\<lparr>ready := r_ready rd\<rparr>)
             \<and> emitted (onPlayerReady rd s) = emitted s @
                 [(''room:player:ready:'' @ name r', RoomPlayerData r' (q\<lparr>ready := r_ready rd\<rparr>))]))
   \<and> (rn \<noteq> c_room cd \<longrightarrow>
        Collection_getById name (rooms (onPlayerColor cd s)) rn = Collection_getById name (rooms s) rn)
   \<and> (rn \<noteq> r_room rd \<longrightarrow>
        Collection_getById name (rooms (onPlayerReady rd s)) rn = Collection_getById name (rooms s) rn)"
proof (intro conjI impI)
  assume "Collection_getById name (rooms s) rn = None"
  then show "player_in s rn c = None" by (simp add: player_in_def)
next
  assume "player_in s (c_room cd) (c_player cd) = None"
  then show "onPlayerColor cd s = s" by (rule onPlayerColor_noop)
next
  assume "player_in s (r_room rd) (r_player rd) = None"
  then show "onPlayerReady rd s = s" by (rule onPlayerReady_noop)
next
  assume "player_in s (c_room cd) (c_player cd) = Some p"
  then show "case Collection_getById name (rooms (onPlayerColor cd s)) (c_room cd) of
           None \<Rightarrow> False
         | Some r' \<Rightarrow>
             name r' = c_room cd
             \<and> Collection_getById client (players r') (c_player cd) = Some (p\<lparr>color := c_color cd\<rparr>)
             \<and> emitted (onPlayerColor cd s) = emitted s @
                 [(''room:player:color:'' @ name r', RoomPlayerData r' (p\<lparr>color := c_color cd\<rparr>))]"
    by (rule onPlayerColor_scoped)
next
  assume "player_in s (r_room rd) (r_player rd) = Some q"
  then show "case Collection_getById name (rooms (onPlayerReady rd s)) (r_room rd) of
           None \<Rightarrow> False
         | Some r' \<Rightarrow>
             name r' = r_room rd
             \<and> Collection_getById client (players r') (r_player rd) = Some (q\<lparr>ready := r_ready rd\<rparr>)
             \<and> emitted (onPlayerReady rd s) = emitted s @
                 [(''room:player:ready:'' @ name r', RoomPlayerData r' (q\<lparr>ready := r_ready rd\<rparr>))]"
    by (rule onPlayerReady_scoped)
next
  assume "rn \<noteq> c_room cd"
  then show "Collection_getById name (rooms (onPlayerColor cd s)) rn = Collection_getById name (rooms s) rn"
    by (rule onPlayerColor_other_rooms)
next
  assume "rn \<noteq> r_room rd"
  then show "Collection_getById name (rooms (onPlayerReady rd s)) rn = Collection_getById name (rooms s) rn"
    by (rule onPlayerReady_other_rooms)
qed

theorem color_and_ready_are_room_scoped_witness:
  "Collection_getById name (rooms two_lobbies) ''ghost'' = None
   \<and> player_in two_lobbies ''lobby1'' ''c1'' = Some alice_player
   \<and> player_in two_lobbies ''ghost'' ''c1'' = None
   \<and> player_in two_lobbies (c_room color_ghost) (c_player color_ghost) = None
   \<and> onPlayerColor color_ghost two_lobbies = two_lobbies
   \<and> player_in two_lobbies (c_room color_wrong_room) (c_player color_wrong_room) = None
   \<and> onPlayerColor color_wrong_room two_lobbies = two_lobbies
   \<and> player_in two_lobbies (r_room ready_wrong_room) (r_player ready_wrong_room) = None
   \<and> onPlayerReady ready_wrong_room two_lobbies = two_lobbies
   \<and> player_in two_lobbies (c_room color_alice) (c_player color_alice) = Some alice_player
   \<and> (case Collection_getById name (rooms (onPlayerColor color_alice two_lobbies)) (c_room color_alice) of
         None \<Rightarrow> False
       | Some r' \<Rightarrow>
           name r' = c_room color_alice
           \<and> Collection_getById client (players r') (c_player color_alice)
               = Some (alice_player\<lparr>color := c_color color_alice\<rparr>)
           \<and> emitted (onPlayerColor color_alice two_lobbies) = emitted two_lobbies @
               [(''room:player:color:'' @ name r',
                 RoomPlayerData r' (alice_player\<lparr>color := c_color color_alice\<rparr>))])
   \<and> player_in two_lobbies (r_room ready_on) (r_player ready_on) = Some alice_player
   \<and> (case Collection_getById name (rooms (onPlayerReady ready_on two_lobbies)) (r_room ready_on) of
         None \<Rightarrow> False
       | Some r' \<Rightarrow>
           name r' = r_room ready_on
           \<and> Collection_getById client (players r') (r_player ready_on)
               = Some (alice_player\<lparr>ready := r_ready ready_on\<rparr>)
           \<and> emitted (onPlayerReady ready_on two_lobbies) = emitted two_lobbies @
               [(''room:player:ready:'' @ name r',
                 RoomPlayerData r' (alice_player\<lparr>ready := r_ready ready_on\<rparr>))])
   \<and> ''lobby2'' \<noteq> c_room color_alice
   \<and> Collection_getById name (rooms (onPlayerColor color_alice two_lobbies)) ''lobby2''
       = Collection_getById name (rooms two_lobbies) ''lobby2''
   \<and> ''lobby2'' \<noteq> r_room ready_on
   \<and> Collection_getById name (rooms (onPlayerReady ready_on two_lobbies)) ''lobby2''
       = Collection_getById name (rooms two_lobbies) ''lobby2''"
proof -
  note ev = player_in_def two_lobbies_eval Collection_getById_def lobby1_room_def lobby2_room_def
    alice_player_def bob_player_def
  have g: "Collection_getById name (rooms two_lobbies) ''ghost'' = None"
    by (simp add: ev)
  have elsewhere: "player_in two_lobbies ''lobby1'' ''c1'' = Some alice_player"
    by (simp add: ev)
  have cg: "player_in two_lobbies (c_room color_ghost) (c_player color_ghost) = None"
    by (simp add: ev color_ghost_def)
  have cw: "player_in two_lobbies (c_room color_wrong_room) (c_player color_wrong_room) = None"
    by (simp add: ev color_wrong_room_def)
  have rw: "player_in two_lobbies (r_room ready_wrong_room) (r_player ready_wrong_room) = None"
    by (simp add: ev ready_wrong_room_def)
  have ca: "player_in two_lobbies (c_room color_alice) (c_player color_alice) = Some alice_player"
    by (simp add: ev color_alice_def)
  have ra: "player_in two_lobbies (r_room ready_on) (r_player ready_on) = Some alice_player"
    by (simp add: ev ready_on_def)
  have co: "''lobby2'' \<noteq> c_room color_alice"
    by (simp add: color_alice_def)
  have ro: "''lobby2'' \<noteq> r_room ready_on"
    by (simp add: ready_on_def)
  note t1 = color_and_ready_are_room_scoped
    [where s = two_lobbies and rn = "''ghost''" and c = "''c1''", THEN conjunct1, rule_format, OF g]
  note t2g = color_and_ready_are_room_scoped
    [where s = two_lobbies and cd = color_ghost, THEN conjunct2, THEN conjunct1, rule_format, OF cg]
  note t2w = color_and_ready_are_room_scoped
    [where s = two_lobbies and cd = color_wrong_room, THEN conjunct2, THEN conjunct1, rule_format, OF cw]
  note t3 = color_and_ready_are_room_scoped
    [where s = two_lobbies and rd = ready_wrong_room,
      THEN conjunct2, THEN conjunct2, THEN conjunct1, rule_format, OF rw]
  note t4 = color_and_ready_are_room_scoped
    [where s = two_lobbies and cd = color_alice and p = alice_player,
      THEN conjunct2, THEN conjunct2, THEN conjunct2, THEN conjunct1, THEN mp, OF ca]
  note t5 = color_and_ready_are_room_scoped
    [where s = two_lobbies and rd = ready_on and q = alice_player,
      THEN conjunct2, THEN conjunct2, THEN conjunct2, THEN conjunct2, THEN conjunct1, THEN mp, OF ra]
  note t6 = color_and_ready_are_room_scoped
    [where s = two_lobbies and cd = color_alice and rn = "''lobby2''",
      THEN conjunct2, THEN conjunct2, THEN conjunct2, THEN conjunct2, THEN conjunct2,
      THEN conjunct1, THEN mp, OF co]
  note t7 = color_and_ready_are_room_scoped
    [where s = two_lobbies and rd = ready_on and rn = "''lobby2''",
      THEN conjunct2, THEN conjunct2, THEN conjunct2, THEN conjunct2, THEN conjunct2,
      THEN conjunct2, THEN mp, OF ro]
  show ?thesis
    by (intro conjI) (fact g elsewhere t1 cg t2g cw t2w rw t3 ca t4 ra t5 co t6 ro t7)+
qed

text \<open>
  C10, as amended: for a new-room event with the snapshot \<open>[p0, ..., pn]\<close>, the handler
  builds the room by adding the players in reverse payload order, \<open>pn\<close> first and \<open>p0\<close>
  last; each add appends at the end and is refused when a player with that client id has
  been added already.  So the players of the new room are the payload reversed, without
  the entries whose client id occurs again later in the payload; when the client ids of
  the snapshot are distinct, they are exactly the payload reversed.  When no room of that
  name is present, this room is the one appended to the room collection.
\<close>

theorem snapshot_added_in_reverse:
  "name (buildRoom d) = nr_name d
   \<and> players (buildRoom d) =
       foldl (\<lambda>ps p. snd (Collection_add client ps p)) [] (rev (map player_of (nr_players d)))
   \<and> players (buildRoom d) = rev (map player_of (drop_repeated d_client (nr_players d)))
   \<and> (distinct (map d_client (nr_players d)) \<longrightarrow>
        players (buildRoom d) = rev (map player_of (nr_players d)))
   \<and> (\<not> Collection_exists name (rooms s) (nr_name d) \<longrightarrow>
        rooms (onNewRoom d s) = rooms s @ [buildRoom d])"
proof -
  have fold: "players (buildRoom d) =
       foldl (\<lambda>ps p. snd (Collection_add client ps p)) [] (rev (map player_of (nr_players d)))"
    by (simp add: buildRoom_def addPlayers_foldl players_foldl_addPlayer new_Room_def)
  have "players (buildRoom d) = rev (map player_of (nr_players d))"
    if "distinct (map d_client (nr_players d))"
    using that by (simp add: players_buildRoom drop_repeated_distinct)
  moreover have "rooms (onNewRoom d s) = rooms s @ [buildRoom d]"
    if "\<not> Collection_exists name (rooms s) (nr_name d)"
    using that by (simp add: onNewRoom_rooms)
  ultimately show ?thesis using fold players_buildRoom [of d] by simp
qed

theorem snapshot_added_in_reverse_witness:
  "nr_players dup_snapshot = [alice, bob, alicia]
   \<and> drop_repeated d_client (nr_players dup_snapshot) = [bob, alicia]
   \<and> players (buildRoom dup_snapshot) = rev (map player_of (drop_repeated d_client (nr_players dup_snapshot)))
   \<and> players (buildRoom dup_snapshot) = [alicia_player, bob_player]
   \<and> nr_players lobby1_snapshot = [alice, bob]
   \<and> distinct (map d_client (nr_players lobby1_snapshot))
   \<and> players (buildRoom lobby1_snapshot) = rev (map player_of (nr_players lobby1_snapshot))
   \<and> players (buildRoom lobby1_snapshot) = [bob_player, alice_player]
   \<and> \<not> Collection_exists name (rooms fresh) (nr_name lobby1_snapshot)
   \<and> rooms (onNewRoom lobby1_snapshot fresh) = rooms fresh @ [buildRoom lobby1_snapshot]"
proof -
  have d0: "nr_players dup_snapshot = [alice, bob, alicia]"
    by (simp add: dup_snapshot_def)
  have d1: "drop_repeated d_client (nr_players dup_snapshot) = [bob, alicia]"
    by (simp add: dup_snapshot_def alice_def bob_def alicia_def)
  note d2 = snapshot_added_in_reverse
    [of dup_snapshot, THEN conjunct2, THEN conjunct2, THEN conjunct1]
  have d3: "players (buildRoom dup_snapshot) = [alicia_player, bob_player]"
    by (simp add: d2 d1)
       (simp add: bob_def alicia_def player_of_def new_Player_def alicia_player_def bob_player_def)
  have h0: "nr_players lobby1_snapshot = [alice, bob]"
    by (simp add: lobby1_snapshot_def)
  have h1: "distinct (map d_client (nr_players lobby1_snapshot))"
    by (simp add: lobby1_snapshot_def alice_def bob_def)
  have h2: "\<not> Collection_exists name (rooms fresh) (nr_name lobby1_snapshot)"
    by (simp add: fresh_def RoomRepository_def Collection_exists_def)
  note t1 = snapshot_added_in_reverse
    [of lobby1_snapshot, THEN conjunct2, THEN conjunct2, THEN conjunct2, THEN conjunct1, THEN mp, OF h1]
  note t2 = snapshot_added_in_reverse
    [of lobby1_snapshot fresh, THEN conjunct2, THEN conjunct2, THEN conjunct2, THEN conjunct2,
      THEN mp, OF h2]
  have t3: "players (buildRoom lobby1_snapshot) = [bob_player, alice_player]"
    by (simp add: t1)
       (simp add: lobby1_snapshot_def alice_def bob_def player_of_def new_Player_def
          alice_player_def bob_player_def)
  show ?thesis
    by (intro conjI) (fact d0 d1 d2 d3 h0 h1 t1 t3 h2 t2)+
qed

text \<open>
  C10 without the amendment fails on a snapshot that repeats a client id: for
  Alice (\<open>c1\<close>), Bob (\<open>c2\<close>), Alicia (\<open>c1\<close>) the loop adds Alicia, then Bob, and the add of
  Alice is refused, so the room holds two players and not the three of the reversed
  payload.
\<close>

theorem snapshot_not_always_reversed:
  "players (buildRoom dup_snapshot) \<noteq> rev (map player_of (nr_players dup_snapshot))
   \<and> players (buildRoom dup_snapshot) = [alicia_player, bob_player]
   \<and> rev (map player_of (nr_players dup_snapshot))
       = [alicia_player, bob_player, alice_player]"
  by (simp add: dup_snapshot_def buildRoom_def new_Room_def Room_addPlayer_def
      Collection_add_def Collection_exists_def player_of_def new_Player_def
      alice_def bob_def alicia_def alice_player_def bob_player_def alicia_player_def)

end
